theory Spec2Isabelle
  imports Main "HOL-Library.Word"
begin

unbundle bit_operations_syntax

section \<open>Sprinkles: an irrigation controller for the Arduino (AVR)\<close>

text \<open>
  The development follows \<^verbatim>\<open>Sprinkles.ino\<close> (version 1.3). On the AVR target a
  \<^verbatim>\<open>byte\<close> is 8 bits wide, an \<^verbatim>\<open>int\<close> 16 bits, and \<^verbatim>\<open>time_t\<close> and
  \<^verbatim>\<open>unsigned long\<close> 32 bits, unsigned.

  The older \<^verbatim>\<open>sprinkler_controller.ino\<close> (version 1.0) has the same zone control, manual
  handler, zone log and NTP client. Its \<^verbatim>\<open>Schedule\<close> differs: \<^verbatim>\<open>build\<close> tests the day mask
  only, \<^verbatim>\<open>activeZone\<close> tests \<^verbatim>\<open>enabled\<close>, \<^verbatim>\<open>nextRun\<close> stands in place of
  \<^verbatim>\<open>nextEventStart\<close>, and there is no \<^verbatim>\<open>isStale\<close>.
\<close>

type_synonym byte = "8 word"
type_synonym time_t = "32 word"

subsection \<open>Zones, system status and the observable effects\<close>

record WaterZone =
  on :: bool
  pin :: byte
  name :: string

definition NUM_ZONES :: nat where
  "NUM_ZONES = 4"

datatype SystemMode = IDLE_MODE | MANUAL_MODE | AUTO_MODE

record SystemStatus =
  mode :: SystemMode
  resetTime :: time_t

text \<open>
  Calls that leave the sketch are recorded in the order in which they happen:
  \<^verbatim>\<open>digitalWrite(pin, level)\<close>, \<^verbatim>\<open>delay(ms)\<close>, \<^verbatim>\<open>gZoneLog.add(zone, state)\<close>
  and \<^verbatim>\<open>server.httpSeeOther(url)\<close>.
\<close>

datatype effect =
  DigitalWrite byte bool
  | Delay nat
  | LogAdd byte bool
  | HttpSeeOther string

record sys =
  gZoneList :: "WaterZone list"
  sysStatus :: SystemStatus
  effects :: "effect list"

text \<open>
  Indexing \<^verbatim>\<open>gZoneList\<close> at or beyond \<^verbatim>\<open>NUM_ZONES\<close> leaves the array; the model
  stops there with an error instead of reading or writing foreign memory.
\<close>

datatype error = OutOfBounds

definition gZoneList_init :: "WaterZone list" where
  "gZoneList_init =
     [\<lparr>on = False, pin = 8, name = ''SOUTH''\<rparr>,
      \<lparr>on = False, pin = 6, name = ''NORTH''\<rparr>,
      \<lparr>on = False, pin = 7, name = ''BACK''\<rparr>,
      \<lparr>on = False, pin = 5, name = ''FRONT''\<rparr>]"

definition sys_init :: sys where
  "sys_init =
     \<lparr>gZoneList = gZoneList_init,
      sysStatus = \<lparr>mode = IDLE_MODE, resetTime = 0\<rparr>,
      effects = []\<rparr>"

subsection \<open>Zone control functions\<close>

definition zoneOff :: "byte \<Rightarrow> sys \<Rightarrow> error + sys" where
  "zoneOff zone s =
     (if NUM_ZONES \<le> unat zone then Inl OutOfBounds
      else if on (gZoneList s ! unat zone) then
        Inr (s\<lparr>gZoneList := (gZoneList s)[unat zone := (gZoneList s ! unat zone)\<lparr>on := False\<rparr>],
               effects := effects s @
                 [DigitalWrite (pin (gZoneList s ! unat zone)) False, Delay 20, LogAdd zone False]\<rparr>)
      else Inr s)"

text \<open>The loop \<^verbatim>\<open>for (i = 0; i < NUM_ZONES; i++) zoneOff(i)\<close>, from \<open>i\<close> on.\<close>

function zonesOff_from :: "nat \<Rightarrow> sys \<Rightarrow> error + sys" where
  "zonesOff_from i s =
     (if i < NUM_ZONES then
        (case zoneOff (of_nat i) s of
           Inl e \<Rightarrow> Inl e
         | Inr s' \<Rightarrow> zonesOff_from (Suc i) s')
      else Inr s)"
  by pat_completeness auto
termination
  by (relation "measure (\<lambda>(i, s). NUM_ZONES - i)") auto

definition zoneOn :: "byte \<Rightarrow> sys \<Rightarrow> error + sys" where
  "zoneOn zone s =
     (if NUM_ZONES \<le> unat zone then Inl OutOfBounds
      else if \<not> on (gZoneList s ! unat zone) then
        (case zonesOff_from 0 s of
           Inl e \<Rightarrow> Inl e
         | Inr s' \<Rightarrow>
             Inr (s'\<lparr>gZoneList := (gZoneList s')[unat zone := (gZoneList s' ! unat zone)\<lparr>on := True\<rparr>],
                     effects := effects s' @
                       [DigitalWrite (pin (gZoneList s' ! unat zone)) True, Delay 20, LogAdd zone True]\<rparr>))
      else Inr s)"

definition allZonesOff :: "sys \<Rightarrow> error + sys" where
  "allZonesOff s = zonesOff_from 0 s"

subsection \<open>Sequences of zone commands\<close>










declare zonesOff_from.simps [simp del]



subsection \<open>The manual-command handler\<close>

datatype ConnectionType = INVALID | GET | HEAD | POST | PUT | DELETE | PATCH

text \<open>
  A parameter name or value is a NUL-terminated character buffer; reading at the end of the
  text yields the terminator.
\<close>

definition c_char :: "string \<Rightarrow> nat \<Rightarrow> char" where
  "c_char str i = (if i < length str then str ! i else CHR 0x00)"

definition set_mode :: "SystemMode \<Rightarrow> sys \<Rightarrow> sys" where
  "set_mode m s = s\<lparr>sysStatus := (sysStatus s)\<lparr>mode := m\<rparr>\<rparr>"

text \<open>
  \<^verbatim>\<open>manualCmd\<close> handles the first URL parameter only; \<open>None\<close> stands for
  \<^verbatim>\<open>URLPARAM_EOS\<close>. The zone number is the character after \<^verbatim>\<open>Z\<close> minus \<^verbatim>\<open>'0'\<close>, an
  \<^verbatim>\<open>int\<close> that the call converts to \<^verbatim>\<open>byte\<close>.
\<close>

definition manualCmd :: "ConnectionType \<Rightarrow> (string \<times> string) option \<Rightarrow> sys \<Rightarrow> error + sys" where
  "manualCmd type param s =
     (case
        (if type \<noteq> HEAD then
           (case param of
              None \<Rightarrow> Inr s
            | Some (pName, pValue) \<Rightarrow>
                if c_char pName 0 = CHR ''Z'' then
                  (let zone = (of_char (c_char pName 1) :: int) - of_char CHR ''0'' in
                   if pValue = ''ON'' then
                     (case zoneOn (word_of_int zone) s of
                        Inl e \<Rightarrow> Inl e
                      | Inr s' \<Rightarrow> Inr (set_mode MANUAL_MODE s'))
                   else if pValue = ''OFF'' then
                     (case zoneOff (word_of_int zone) s of
                        Inl e \<Rightarrow> Inl e
                      | Inr s' \<Rightarrow> Inr (set_mode IDLE_MODE s'))
                   else Inr s)
                else if pName = ''ALL'' then
                  (case allZonesOff s of
                     Inl e \<Rightarrow> Inl e
                   | Inr s' \<Rightarrow> Inr (set_mode IDLE_MODE s'))
                else Inr s)
         else Inr s)
      of
        Inl e \<Rightarrow> Inl e
      | Inr s' \<Rightarrow> Inr (s'\<lparr>effects := effects s' @ [HttpSeeOther ''index.html'']\<rparr>))"

subsection \<open>Time library\<close>

text \<open>
  The sketch uses the Arduino Time library (\<^verbatim>\<open>TimeLib.h\<close>), which is not part of the
  repository. Its macros \<^verbatim>\<open>SECS_PER_MIN\<close>, \<^verbatim>\<open>SECS_PER_DAY\<close> and \<^verbatim>\<open>previousMidnight\<close> and
  its function \<^verbatim>\<open>weekday\<close> are given as that library defines them: \<^verbatim>\<open>weekday\<close> numbers the
  days from 1 (Sunday) to 7 (Saturday), and day 0 of the epoch is a Thursday.
\<close>

definition SECS_PER_MIN :: time_t where
  "SECS_PER_MIN = 60"

definition SECS_PER_DAY :: time_t where
  "SECS_PER_DAY = 86400"

definition previousMidnight :: "time_t \<Rightarrow> time_t" where
  "previousMidnight t = (t div SECS_PER_DAY) * SECS_PER_DAY"

definition weekday :: "time_t \<Rightarrow> nat" where
  "weekday t = unat ((t div SECS_PER_DAY + 4) mod 7) + 1"

subsection \<open>Watering cycle and schedule\<close>

record WaterCycle =
  startTime :: "16 word"
  zone_duration :: "byte list"
  activeDays :: byte
  enabled :: bool

record Event =
  startTime :: time_t
  zoneStopTime :: "time_t list"

definition NUM_SCHED_EVENTS :: nat where
  "NUM_SCHED_EVENTS = 1"

text \<open>The event list after \<^verbatim>\<open>memset(eventList, 0, sizeof(eventList))\<close>.\<close>

definition zero_Event :: Event where
  "zero_Event = \<lparr>startTime = 0, zoneStopTime = replicate NUM_ZONES 0\<rparr>"

definition cleared :: "Event list" where
  "cleared = replicate NUM_SCHED_EVENTS zero_Event"

text \<open>
  The loop over the zones of one event: zone \<open>j\<close> stops \<^verbatim>\<open>zone_duration[j]\<close> minutes after
  the zone before it, the first one after the start of the event.
\<close>

function fill_zones :: "WaterCycle \<Rightarrow> nat \<Rightarrow> time_t \<Rightarrow> Event \<Rightarrow> Event" where
  "fill_zones cycle j t ev =
     (if j < NUM_ZONES then
        (let stop = t + ucast (zone_duration cycle ! j) * SECS_PER_MIN
         in fill_zones cycle (Suc j) stop (ev\<lparr>zoneStopTime := (zoneStopTime ev)[j := stop]\<rparr>))
      else ev)"
  by pat_completeness auto
termination
  by (relation "measure (\<lambda>(cycle, j, t, ev). NUM_ZONES - j)") auto

text \<open>\<^verbatim>\<open>while (eventStart < localTime) eventStart += SECS_PER_DAY;\<close>\<close>

partial_function (option) find_start :: "time_t \<Rightarrow> time_t \<Rightarrow> time_t option" where
  "find_start localTime eventStart =
     (if eventStart < localTime then find_start localTime (eventStart + SECS_PER_DAY)
      else Some eventStart)"

declare find_start.simps [code]

text \<open>
  The test \<^verbatim>\<open>cycle->activeDays & (1 << weekday(eventStart))\<close>, computed in \<^verbatim>\<open>int\<close>.
\<close>

definition day_active :: "WaterCycle \<Rightarrow> time_t \<Rightarrow> bool" where
  "day_active cycle eventStart =
     ((ucast (activeDays cycle) :: 16 word) AND push_bit (weekday eventStart) 1 \<noteq> 0)"

text \<open>\<^verbatim>\<open>while (i < NUM_SCHED_EVENTS) { ... eventStart += SECS_PER_DAY; }\<close>\<close>

partial_function (option) fill_schedule ::
    "WaterCycle \<Rightarrow> nat \<Rightarrow> time_t \<Rightarrow> Event list \<Rightarrow> Event list option" where
  "fill_schedule cycle i eventStart eventList =
     (if i < NUM_SCHED_EVENTS then
        (if day_active cycle eventStart then
           fill_schedule cycle (Suc i) (eventStart + SECS_PER_DAY)
             (eventList[i := fill_zones cycle 0 eventStart ((eventList ! i)\<lparr>startTime := eventStart\<rparr>)])
         else fill_schedule cycle i (eventStart + SECS_PER_DAY) eventList)
      else Some eventList)"

declare fill_schedule.simps [code]

text \<open>
  \<^verbatim>\<open>Schedule::build\<close>. The local time \<^verbatim>\<open>myTZ.toLocal(now())\<close> is an argument; the result
  is the new event list, or \<open>None\<close> when one of the two loops does not come to an end.
\<close>

definition build :: "WaterCycle \<Rightarrow> time_t \<Rightarrow> Event list \<Rightarrow> Event list option" where
  "build cycle localTime eventList =
     (if enabled cycle \<and> activeDays cycle \<noteq> 0 then
        (case find_start localTime
                (previousMidnight localTime + scast (WaterCycle.startTime cycle) * SECS_PER_MIN) of
           None \<Rightarrow> None
         | Some eventStart \<Rightarrow> fill_schedule cycle 0 eventStart cleared)
      else Some cleared)"




text \<open>
  \<^verbatim>\<open>Schedule::nextEventStart\<close> returns from inside its loop only. When no event starts after
  \<open>curTime\<close>, control reaches the end of the function, which has no \<^verbatim>\<open>return\<close> there:
  the caller then reads a value that the function never set.
\<close>

datatype 'a returned = Returns 'a | No_return

function nextEventStart_from :: "Event list \<Rightarrow> time_t \<Rightarrow> nat \<Rightarrow> time_t returned" where
  "nextEventStart_from eventList curTime i =
     (if i < NUM_SCHED_EVENTS then
        (if curTime < startTime (eventList ! i) then Returns (startTime (eventList ! i))
         else nextEventStart_from eventList curTime (Suc i))
      else No_return)"
  by pat_completeness auto
termination
  by (relation "measure (\<lambda>(eventList, curTime, i). NUM_SCHED_EVENTS - i)") auto

definition nextEventStart :: "Event list \<Rightarrow> time_t \<Rightarrow> time_t returned" where
  "nextEventStart eventList curTime = nextEventStart_from eventList curTime 0"


text \<open>
  The cycle of the compilation test: start at minute 360, ten minutes per zone, day bit 1
  (the day \<^verbatim>\<open>weekday\<close> numbers 1), enabled.
\<close>

definition fixed_cycle :: WaterCycle where
  "fixed_cycle =
     \<lparr>WaterCycle.startTime = 360, zone_duration = [10, 10, 10, 10],
      activeDays = 2, enabled = True\<rparr>"

declare fill_zones.simps [simp del]
declare nextEventStart_from.simps [simp del]

subsection \<open>The zone log in EEPROM\<close>

text \<open>
  The EEPROM is a store of bytes. \<^verbatim>\<open>EEPROM.put\<close> and \<^verbatim>\<open>EEPROM.get\<close> copy the bytes of a
  value, least significant byte first on the AVR. The addresses \<^verbatim>\<open>head\<close> and \<^verbatim>\<open>tail\<close> are
  of type \<^verbatim>\<open>int\<close>; they are modelled as integers, which agrees with the 16-bit \<^verbatim>\<open>int\<close> as
  long as they stay within the log region, where no addition overflows.
\<close>

type_synonym eeprom = "int \<Rightarrow> byte"

definition put_time :: "eeprom \<Rightarrow> int \<Rightarrow> time_t \<Rightarrow> eeprom" where
  "put_time ee a t =
     ee(a := ucast t, a + 1 := ucast (drop_bit 8 t),
        a + 2 := ucast (drop_bit 16 t), a + 3 := ucast (drop_bit 24 t))"


definition put_byte :: "eeprom \<Rightarrow> int \<Rightarrow> byte \<Rightarrow> eeprom" where
  "put_byte ee a b = ee(a := b)"


definition put_bool :: "eeprom \<Rightarrow> int \<Rightarrow> bool \<Rightarrow> eeprom" where
  "put_bool ee a b = ee(a := of_bool b)"

definition get_bool :: "eeprom \<Rightarrow> int \<Rightarrow> bool" where
  "get_bool ee a = (ee a \<noteq> 0)"

definition put_int :: "eeprom \<Rightarrow> int \<Rightarrow> int \<Rightarrow> eeprom" where
  "put_int ee a v = ee(a := word_of_int v, a + 1 := word_of_int (v div 256))"

definition get_int :: "eeprom \<Rightarrow> int \<Rightarrow> int" where
  "get_int ee a = sint (push_bit 8 (ucast (ee (a + 1))) OR ucast (ee a) :: 16 word)"

definition ZONE_LOG_LENGTH :: int where
  "ZONE_LOG_LENGTH = int NUM_ZONES * 2 * 3 + 1"

text \<open>\<^verbatim>\<open>sizeof(time_t) + sizeof(byte) + sizeof(boolean)\<close>\<close>

definition ZONE_LOG_ELEM_SIZE :: int where
  "ZONE_LOG_ELEM_SIZE = 4 + 1 + 1"

definition EEADDR_ZONE_LOG_BASE :: int where
  "EEADDR_ZONE_LOG_BASE = 100"

text \<open>\<^verbatim>\<open>EEADDR_ZONE_LOG_BASE + 2 * sizeof(int)\<close>\<close>

definition EEADDR_ZONE_LOG_START :: int where
  "EEADDR_ZONE_LOG_START = EEADDR_ZONE_LOG_BASE + 2 * 2"

definition EEADDR_ZONE_LOG_END :: int where
  "EEADDR_ZONE_LOG_END = EEADDR_ZONE_LOG_START + ZONE_LOG_LENGTH * ZONE_LOG_ELEM_SIZE"

record ZoneLog =
  head :: int
  tail :: int
  EEPROM :: eeprom

definition begin_log :: "eeprom \<Rightarrow> ZoneLog" where
  "begin_log ee =
     \<lparr>head = get_int ee EEADDR_ZONE_LOG_BASE,
      tail = get_int ee (EEADDR_ZONE_LOG_BASE + 2),
      EEPROM = ee\<rparr>"


text \<open>
  \<^verbatim>\<open>ZoneLog::add\<close>. The time stamp \<^verbatim>\<open>myTZ.toLocal(now())\<close> is an argument.
\<close>

definition add :: "time_t \<Rightarrow> byte \<Rightarrow> bool \<Rightarrow> ZoneLog \<Rightarrow> ZoneLog" where
  "add tm zone state l =
     (let ee1 = put_time (EEPROM l) (head l) tm;
          h1 = head l + 4;
          ee2 = put_byte ee1 h1 zone;
          h2 = h1 + 1;
          ee3 = put_bool ee2 h2 state;
          h3 = h2 + 1;
          h4 = (if EEADDR_ZONE_LOG_END \<le> h3 then EEADDR_ZONE_LOG_START else h3);
          t4 = (if h4 = tail l then
                  (let t = h4 + ZONE_LOG_ELEM_SIZE
                   in if EEADDR_ZONE_LOG_END \<le> t then EEADDR_ZONE_LOG_START else t)
                else tail l);
          ee4 = put_int ee3 EEADDR_ZONE_LOG_BASE h4;
          ee5 = put_int ee4 (EEADDR_ZONE_LOG_BASE + 2) t4
      in \<lparr>head = h4, tail = t4, EEPROM = ee5\<rparr>)"






text \<open>
  Slot \<open>i\<close> of the ring, the entry stored in it, and the logs that hold a given list of
  entries (oldest first) from \<^verbatim>\<open>tail\<close> up to \<^verbatim>\<open>head\<close>.
\<close>

definition slot :: "nat \<Rightarrow> int" where
  "slot i = EEADDR_ZONE_LOG_START + ZONE_LOG_ELEM_SIZE * int i"





subsection \<open>Time from the NTP server\<close>

definition NTP_PACKET_SIZE :: nat where
  "NTP_PACKET_SIZE = 48"

text \<open>Arduino's \<^verbatim>\<open>word(h, l)\<close>: the 16-bit value \<^verbatim>\<open>(h << 8) | l\<close>.\<close>

definition makeWord :: "byte \<Rightarrow> byte \<Rightarrow> 16 word" where
  "makeWord h l = push_bit 8 (ucast h) OR ucast l"

text \<open>The buffer \<^verbatim>\<open>ntpPacket\<close> as \<^verbatim>\<open>sendNTPrequest\<close> fills and sends it.\<close>

definition sendNTPrequest :: "byte list" where
  "sendNTPrequest =
     (replicate NTP_PACKET_SIZE 0)
       [0 := 0xE3, 1 := 0, 2 := 6, 3 := 0xEC, 12 := 49, 13 := 0x4E, 14 := 49, 15 := 52]"

text \<open>
  \<^verbatim>\<open>Udp.read(buffer, len)\<close> copies at most \<open>len\<close> bytes of the datagram to the front of the
  buffer and leaves the rest of the buffer as it was.
\<close>

definition udp_read :: "byte list \<Rightarrow> byte list \<Rightarrow> nat \<Rightarrow> byte list" where
  "udp_read buffer dgram len = take len dgram @ drop (min len (length dgram)) buffer"

text \<open>The seconds since 1970 computed from bytes 40 to 43 of the buffer.\<close>

definition ntp_seconds :: "byte list \<Rightarrow> 32 word" where
  "ntp_seconds ntpPacket =
     (let highWord = (ucast (makeWord (ntpPacket ! 40) (ntpPacket ! 41)) :: 32 word);
          lowWord = (ucast (makeWord (ntpPacket ! 42) (ntpPacket ! 43)) :: 32 word);
          secsSince1900 = push_bit 16 highWord OR lowWord
      in secsSince1900 - 2208988800)"

text \<open>
  The network and the clock are given by what the successive calls of \<^verbatim>\<open>Udp.parsePacket()\<close>
  find (a datagram, or nothing) and what the successive calls of \<^verbatim>\<open>millis()\<close> return.
  \<^verbatim>\<open>parsePacket\<close> returns the size of the datagram, 0 for none. A result \<open>None\<close> of the
  functions below says that the given answers end before the function returns.
\<close>

definition parsePacket :: "byte list option \<Rightarrow> int" where
  "parsePacket d = (case d of None \<Rightarrow> 0 | Some dgram \<Rightarrow> int (length dgram))"

text \<open>\<^verbatim>\<open>while (Udp.parsePacket() > 0) ;\<close>\<close>

fun discard_pending :: "byte list option list \<Rightarrow> byte list option list option" where
  "discard_pending [] = None"
| "discard_pending (d # ds) = (if 0 < parsePacket d then discard_pending ds else Some ds)"

text \<open>\<^verbatim>\<open>while (millis() - beginWait < 1500) { if (Udp.parsePacket()) { ... return ...; } }\<close>\<close>

fun wait_reply ::
    "32 word \<Rightarrow> byte list \<Rightarrow> 32 word list \<Rightarrow> byte list option list \<Rightarrow> 32 word option" where
  "wait_reply beginWait ntpPacket [] ds = None"
| "wait_reply beginWait ntpPacket (m # ms) ds =
     (if m - beginWait < 1500 then
        (case ds of
           [] \<Rightarrow> None
         | d # ds' \<Rightarrow>
             if parsePacket d \<noteq> 0
             then Some (ntp_seconds (udp_read ntpPacket (the d) NTP_PACKET_SIZE))
             else wait_reply beginWait ntpPacket ms ds')
      else Some 0)"

definition getNTPtime :: "32 word list \<Rightarrow> byte list option list \<Rightarrow> 32 word option" where
  "getNTPtime millis parsed =
     (case discard_pending parsed of
        None \<Rightarrow> None
      | Some parsed' \<Rightarrow>
          (case millis of
             [] \<Rightarrow> None
           | beginWait # ms \<Rightarrow> wait_reply beginWait sendNTPrequest ms parsed'))"

text \<open>A reply whose bytes 40 to 43 hold \<open>0xE8FE6F80\<close>, 1700000000 seconds after 1970.\<close>

definition canned_reply :: "byte list" where
  "canned_reply = replicate 40 0x24 @ [0xE8, 0xFE, 0x6F, 0x80] @ replicate 4 0"

section \<open>Properties\<close>

subsection \<open>Zone control: mutual exclusion\<close>
























subsection \<open>The manual-command handler and the zone array\<close>

text \<open>
  Claim C10. The handler accepts every parameter name that starts with \<^verbatim>\<open>Z\<close> and passes the
  next character minus \<^verbatim>\<open>'0'\<close> on without a range check: the request
  \<^verbatim>\<open>manual.html?Z7=ON\<close> calls \<^verbatim>\<open>zoneOn(7)\<close> and \<^verbatim>\<open>manual.html?Z7=OFF\<close> calls
  \<^verbatim>\<open>zoneOff(7)\<close>, and both index \<^verbatim>\<open>gZoneList\<close> beyond its four elements, while
  \<^verbatim>\<open>manual.html?Z3=ON\<close> stays within the array.
\<close>

theorem manualCmd_zone_out_of_bounds:
  "manualCmd GET (Some (''Z7'', ''ON'')) sys_init = Inl OutOfBounds \<and>
   manualCmd GET (Some (''Z7'', ''OFF'')) sys_init = Inl OutOfBounds \<and>
   (\<exists>s. manualCmd GET (Some (''Z3'', ''ON'')) sys_init = Inr s)"
  by (simp add: manualCmd_def c_char_def zoneOn_def zoneOff_def NUM_ZONES_def
      zonesOff_from.simps sys_init_def gZoneList_init_def)

subsection \<open>Schedule: disabled cycles and the empty schedule\<close>



subsection \<open>Schedule: the start of the next event\<close>

text \<open>
  Claim C9. With the empty schedule no event starts after the query time, whatever that time
  is, and \<^verbatim>\<open>nextEventStart\<close> then leaves its loop and reaches the end of the function
  without a \<^verbatim>\<open>return\<close>: the value its caller compares with 0 was never set. In general
  it returns the start of the compiled event when that lies after the query time, and
  nothing otherwise.
\<close>

theorem nextEventStart_no_return:
  "nextEventStart cleared curTime = No_return \<and>
   nextEventStart [ev] curTime =
     (if curTime < Event.startTime ev then Returns (Event.startTime ev) else No_return)"
  by (simp add: nextEventStart_def nextEventStart_from.simps cleared_def zero_Event_def
      NUM_SCHED_EVENTS_def)

subsection \<open>Schedule: a day mask without a weekday\<close>

lemma one_and_push_bit_Suc: "(1 :: 16 word) AND push_bit (Suc n) 1 = 0"
  by (rule bit_word_eqI) (auto simp: bit_simps)

lemma weekday_pos: "\<exists>n. weekday t = Suc n"
  by (simp add: weekday_def)

lemma day_active_mask1:
  assumes "activeDays cycle = 1"
  shows "\<not> day_active cycle t"
proof -
  obtain n where n: "weekday t = Suc n" using weekday_pos by blast
  have u: "(ucast (activeDays cycle) :: 16 word) = 1" using assms by simp
  show ?thesis unfolding day_active_def n u one_and_push_bit_Suc by simp
qed

lemma fill_schedule_mask1_aux:
  assumes "fill_schedule cycle i eventStart eventList = Some y"
  shows "activeDays cycle = 1 \<longrightarrow> i < NUM_SCHED_EVENTS \<longrightarrow> False"
proof (rule fill_schedule.raw_induct
    [where P = "\<lambda>c i es el y. activeDays c = 1 \<longrightarrow> i < NUM_SCHED_EVENTS \<longrightarrow> False", OF _ assms])
  fix f c i es el y
  assume IH: "\<And>c i es el y. f c i es el = Some y \<Longrightarrow>
                 activeDays c = 1 \<longrightarrow> i < NUM_SCHED_EVENTS \<longrightarrow> False"
    and body: "(if i < NUM_SCHED_EVENTS
      then if day_active c es
           then f c (Suc i) (es + SECS_PER_DAY)
                 (el[i := fill_zones c 0 es ((el ! i)\<lparr>Event.startTime := es\<rparr>)])
           else f c i (es + SECS_PER_DAY) el
      else Some el) = Some y"
  show "activeDays c = 1 \<longrightarrow> i < NUM_SCHED_EVENTS \<longrightarrow> False"
  proof (intro impI)
    assume m: "activeDays c = 1" and i: "i < NUM_SCHED_EVENTS"
    from body m i have "f c i (es + SECS_PER_DAY) el = Some y"
      by (simp add: day_active_mask1)
    from IH[OF this] m i show False by simp
  qed
qed

lemma fill_schedule_mask1:
  "activeDays cycle = 1 \<Longrightarrow> fill_schedule cycle 0 eventStart eventList = None"
  using fill_schedule_mask1_aux[of cycle 0 eventStart eventList]
  by (cases "fill_schedule cycle 0 eventStart eventList") (auto simp: NUM_SCHED_EVENTS_def)

subsection \<open>Schedule: arithmetic of days on 32-bit times\<close>



















subsection \<open>Schedule: the event that build compiles\<close>
















subsection \<open>Schedule: termination of build\<close>

lemma build_mask1_never_returns:
  "build \<lparr>WaterCycle.startTime = st, zone_duration = ds, activeDays = 1, enabled = True\<rparr>
     localTime eventList = None"
  by (simp add: build_def fill_schedule_mask1 split: option.split)








subsection \<open>Schedule: the compiled event\<close>



lemma build_fixed_cycle_example:
  "build fixed_cycle 1700000000 cleared =
     Some [\<lparr>Event.startTime = 1700373600,
            zoneStopTime = [1700374200, 1700374800, 1700375400, 1700376000]\<rparr>]"
  by code_simp

subsection \<open>Schedule: staleness\<close>



subsection \<open>Schedule: no test for an unset clock\<close>




subsection \<open>Zone log: entries and slots of the ring\<close>


lemma get_put_bool: "get_bool (put_bool ee a b) a = b"
  by (simp add: get_bool_def put_bool_def)

lemma slot_sep:
  assumes "0 \<le> a" "a < 6" "0 \<le> b" "b < 6" "slot i + a = slot j + b"
  shows "i = j"
proof -
  from assms(5) have "6 * int i + a = 6 * int j + b"
    by (simp add: slot_def ZONE_LOG_ELEM_SIZE_def)
  then have "(6 * int i + a) div 6 = (6 * int j + b) div 6" by simp
  with assms(1-4) show ?thesis by simp
qed



lemma slot_values:
  "slot i = 104 + 6 * int i" "EEADDR_ZONE_LOG_START = 104" "EEADDR_ZONE_LOG_END = 254"
  "EEADDR_ZONE_LOG_BASE = 100" "ZONE_LOG_ELEM_SIZE = 6"
  by (simp_all add: slot_def ZONE_LOG_ELEM_SIZE_def EEADDR_ZONE_LOG_START_def
      EEADDR_ZONE_LOG_END_def EEADDR_ZONE_LOG_BASE_def ZONE_LOG_LENGTH_def NUM_ZONES_def)

lemma next_slot:
  assumes "h < 25"
  shows "(if EEADDR_ZONE_LOG_END \<le> slot h + 4 + 1 + 1 then EEADDR_ZONE_LOG_START
          else slot h + 4 + 1 + 1) = slot (Suc h mod 25)"
proof (cases "Suc h = 25")
  case True
  then show ?thesis by (simp add: slot_values)
next
  case False
  with assms have "Suc h < 25" by simp
  then show ?thesis by (simp add: slot_values)
qed










subsection \<open>Zone log: the ring holds the latest entries\<close>
















subsection \<open>Time from the NTP server\<close>

lemma unat_ucast_upcast:
  fixes x :: "'a::len word"
  assumes "LENGTH('a) \<le> LENGTH('b::len)"
  shows "unat (ucast x :: 'b word) = unat x"
proof -
  have "unat x < 2 ^ LENGTH('a)" by simp
  also have "(2::nat) ^ LENGTH('a) \<le> 2 ^ LENGTH('b)" by (rule power_increasing) (use assms in simp_all)
  finally show ?thesis by (simp add: unsigned_ucast_eq take_bit_nat_eq_self)
qed

lemma unat_makeWord: "unat (makeWord h l) = unat h * 256 + unat l"
proof -
  have h: "unat h < 256" and l: "unat l < 256"
    using unsigned_less[of h] unsigned_less[of l] by simp_all
  have "makeWord h l = (word_cat h l :: 16 word)"
    by (simp add: makeWord_def word_cat_eq_push_bit_or)
  also have "\<dots> = ucast h * 256 + ucast l"
    by (simp add: word_cat_eq push_bit_eq_mult)
  finally have "unat (makeWord h l) = (unat h * 256 + unat l) mod 2 ^ 16"
    by (simp add: unat_word_ariths unat_ucast_upcast mod_add_left_eq mod_add_right_eq mod_mult_left_eq)
  with h l show ?thesis by simp
qed

lemma ntp_seconds_value:
  "ntp_seconds p =
     word_of_nat (unat (p ! 40) * 2 ^ 24 + unat (p ! 41) * 2 ^ 16 + unat (p ! 42) * 2 ^ 8 + unat (p ! 43))
       - 2208988800"
proof -
  define hw where "hw = makeWord (p ! 40) (p ! 41)"
  define lw where "lw = makeWord (p ! 42) (p ! 43)"
  have b: "unat (p ! i) < 256" for i using unsigned_less[of "p ! i"] by simp
  have hw: "unat hw = unat (p ! 40) * 256 + unat (p ! 41)" by (simp add: hw_def unat_makeWord)
  have lw: "unat lw = unat (p ! 42) * 256 + unat (p ! 43)" by (simp add: lw_def unat_makeWord)
  have "push_bit 16 (ucast hw :: 32 word) OR ucast lw = word_cat hw lw"
    by (simp add: word_cat_eq_push_bit_or)
  also have "\<dots> = ucast hw * 65536 + ucast lw"
    by (simp add: word_cat_eq push_bit_eq_mult)
  also have "\<dots> = word_of_nat (unat hw * 65536 + unat lw)"
    by simp
  finally show ?thesis
    by (simp add: ntp_seconds_def Let_def hw_def[symmetric] lw_def[symmetric] hw lw algebra_simps)
qed


lemma discard_pending_stale:
  assumes "list_all (\<lambda>d. 0 < parsePacket d) stale" and "parsePacket e = 0"
  shows "discard_pending (stale @ e # rest) = Some rest"
  using assms by (induction stale) simp_all

lemma wait_reply_quiet:
  assumes "list_all (\<lambda>(m, d). m - t0 < 1500 \<and> parsePacket d = 0) quiet"
  shows "wait_reply t0 buf (map fst quiet @ ms) (map snd quiet @ ds) = wait_reply t0 buf ms ds"
  using assms by (induction quiet) auto

lemma udp_read_full:
  assumes "length dgram = len" "i < len"
  shows "udp_read buf dgram len ! i = dgram ! i"
  using assms by (simp add: udp_read_def nth_append)

text \<open>
  Claim C6. Let the discard loop drop the datagrams that were pending, and let the polls
  that follow fall within 1500 ms of the start of the wait and find nothing. If the next
  poll falls within the 1500 ms and finds a datagram of 48 bytes, \<^verbatim>\<open>getNTPtime\<close> returns
  the big-endian 32-bit value of its bytes 40 to 43 minus 2208988800 (modulo \<open>2^32\<close>). If
  instead the next reading of \<^verbatim>\<open>millis()\<close> is 1500 ms or more after the start, it returns 0.
\<close>

theorem getNTPtime_reply_or_timeout:
  assumes "list_all (\<lambda>d. 0 < parsePacket d) stale" and "parsePacket e = 0"
    and "list_all (\<lambda>(m, d). m - t0 < 1500 \<and> parsePacket d = 0) quiet"
  shows "(m - t0 < 1500 \<and> length reply = NTP_PACKET_SIZE \<longrightarrow>
            getNTPtime (t0 # map fst quiet @ m # ms) (stale @ e # map snd quiet @ Some reply # ds) =
              Some (word_of_nat (unat (reply ! 40) * 2 ^ 24 + unat (reply ! 41) * 2 ^ 16 +
                                 unat (reply ! 42) * 2 ^ 8 + unat (reply ! 43)) - 2208988800)) \<and>
         (\<not> m - t0 < 1500 \<longrightarrow>
            getNTPtime (t0 # map fst quiet @ m # ms) (stale @ e # map snd quiet @ ds) = Some 0)"
proof (intro conjI impI)
  assume a: "m - t0 < 1500 \<and> length reply = NTP_PACKET_SIZE"
  have "getNTPtime (t0 # map fst quiet @ m # ms) (stale @ e # map snd quiet @ Some reply # ds) =
        wait_reply t0 sendNTPrequest (m # ms) (Some reply # ds)"
    by (simp add: getNTPtime_def discard_pending_stale[OF assms(1,2)] wait_reply_quiet[OF assms(3)])
  also have "\<dots> = Some (ntp_seconds (udp_read sendNTPrequest reply NTP_PACKET_SIZE))"
    using a by (simp add: parsePacket_def NTP_PACKET_SIZE_def)
  also have "ntp_seconds (udp_read sendNTPrequest reply NTP_PACKET_SIZE) =
      word_of_nat (unat (reply ! 40) * 2 ^ 24 + unat (reply ! 41) * 2 ^ 16 +
                   unat (reply ! 42) * 2 ^ 8 + unat (reply ! 43)) - 2208988800"
    using a unfolding ntp_seconds_value by (simp add: udp_read_full NTP_PACKET_SIZE_def)
  finally show "getNTPtime (t0 # map fst quiet @ m # ms) (stale @ e # map snd quiet @ Some reply # ds) =
      Some (word_of_nat (unat (reply ! 40) * 2 ^ 24 + unat (reply ! 41) * 2 ^ 16 +
                                 unat (reply ! 42) * 2 ^ 8 + unat (reply ! 43)) - 2208988800)" .
next
  assume "\<not> m - t0 < 1500"
  then show "getNTPtime (t0 # map fst quiet @ m # ms) (stale @ e # map snd quiet @ ds) = Some 0"
    by (simp add: getNTPtime_def discard_pending_stale[OF assms(1,2)] wait_reply_quiet[OF assms(3)])
qed

theorem getNTPtime_reply_or_timeout_witness:
  "list_all (\<lambda>d. 0 < parsePacket d) [Some [1, 2]] \<and> parsePacket None = 0 \<and>
   list_all (\<lambda>(m, d). m - 5000 < 1500 \<and> parsePacket d = 0)
     [(5001 :: 32 word, None), (5230, Some [])] \<and>
   (5400 :: 32 word) - 5000 < 1500 \<and> length canned_reply = NTP_PACKET_SIZE \<and>
   getNTPtime [5000, 5001, 5230, 5400] [Some [1, 2], None, None, Some [], Some canned_reply] =
     Some 1700000000 \<and>
   \<not> (6500 :: 32 word) - 5000 < 1500 \<and>
   getNTPtime [5000, 5001, 5230, 6500] [Some [1, 2], None, None, Some [], Some canned_reply] = Some 0"
proof -
  have s: "list_all (\<lambda>d. 0 < parsePacket d) [Some [1, 2 :: byte]]" and e: "parsePacket None = 0"
    and q: "list_all (\<lambda>(m, d). m - 5000 < 1500 \<and> parsePacket d = 0)
              [(5001 :: 32 word, None), (5230, Some [])]"
    by (simp_all add: parsePacket_def)
  have v: "word_of_nat (unat (canned_reply ! 40) * 2 ^ 24 + unat (canned_reply ! 41) * 2 ^ 16 +
             unat (canned_reply ! 42) * 2 ^ 8 + unat (canned_reply ! 43)) - 2208988800
           = (1700000000 :: 32 word)"
    by (simp add: canned_reply_def nth_append)
  have len: "length canned_reply = NTP_PACKET_SIZE"
    by (simp add: canned_reply_def NTP_PACKET_SIZE_def)
  have t1: "(5400 :: 32 word) - 5000 < 1500" and t2: "\<not> (6500 :: 32 word) - 5000 < 1500"
    by simp_all
  have r1: "getNTPtime [5000, 5001, 5230, 5400]
              [Some [1, 2], None, None, Some [], Some canned_reply] = Some 1700000000"
    using getNTPtime_reply_or_timeout[OF s e q, of 5400 canned_reply "[]" "[]"] t1 len
    unfolding v by simp
  have r2: "getNTPtime [5000, 5001, 5230, 6500]
              [Some [1, 2], None, None, Some [], Some canned_reply] = Some 0"
    using getNTPtime_reply_or_timeout[OF s e q, of 6500 canned_reply "[]" "[Some canned_reply]"] t2
    by simp
  from s e q t1 t2 len r1 r2 show ?thesis by blast
qed

end
